theory Spec2Isabelle
  imports Main "HOL-Library.Word"
begin

unbundle bit_operations_syntax

section \<open>Chunk-framed decompression readers of compressioncodec.go\<close>

text \<open>
  The file embeds the three codecs of \<^verbatim>\<open>compressioncodec.go\<close>: \<^verbatim>\<open>CompressionNone\<close>,
  \<^verbatim>\<open>CompressionZlib\<close> with its \<^verbatim>\<open>CompressionZlibDecoder\<close>, and \<^verbatim>\<open>CompressionSnappy\<close>
  with its \<^verbatim>\<open>CompressionSnappyDecoder\<close>. A Go \<^verbatim>\<open>Read(p)\<close> call is a function of the
  state and of \<open>len(p)\<close>; it returns the bytes stored into \<open>p\<close> (their number is Go's
  \<open>n\<close>), the error (\<open>None\<close> is \<^verbatim>\<open>nil\<close>) and the new state.
\<close>

subsection \<open>Bytes, errors and the readers of the standard library\<close>

type_synonym byte = "8 word"

text \<open>
  The error values that can reach a caller: \<^verbatim>\<open>io.EOF\<close>, \<^verbatim>\<open>io.ErrUnexpectedEOF\<close>, the
  three errors of \<^verbatim>\<open>snappy.Decode\<close>, \<^verbatim>\<open>flate.CorruptInputError\<close> with its offset, and
  whatever other error the reader behind the source returns (\<open>SourceError\<close>, numbered).
\<close>

datatype error =
    EOF
  | ErrUnexpectedEOF
  | ErrCorrupt
  | ErrTooLarge
  | ErrUnsupportedLiteralLength
  | CorruptInputError nat
  | SourceError nat

type_synonym read_result = "byte list \<times> error option"

text \<open>
  The byte source \<^verbatim>\<open>c.source\<close> is an \<^verbatim>\<open>io.Reader\<close> over a stream of bytes; its state is
  the bytes it has not delivered yet. What a \<^verbatim>\<open>Read(p)\<close> of it answers is up to the reader
  behind the interface: \<open>rd left n\<close> is the number of bytes it stores and the error it
  returns when the bytes \<open>left\<close> remain and \<open>len(p) = n\<close>. The bytes stored are the next
  ones of the stream, and they are no more than \<open>len(p)\<close> and no more than remain. So a
  reader may read short, may return \<^verbatim>\<open>io.EOF\<close> together with bytes, and may fail.
\<close>

type_synonym source_reader = "byte list \<Rightarrow> nat \<Rightarrow> nat \<times> error option"

definition source_Read :: "source_reader \<Rightarrow> byte list \<Rightarrow> nat \<Rightarrow> read_result \<times> byte list" where
  "source_Read rd src n =
     (case rd src n of
        (k, err) \<Rightarrow> ((take (min k n) src, err), drop (min k n) src))"

text \<open>
  \<^verbatim>\<open>io.LimitedReader.Read\<close> over the source, with \<open>N\<close> bytes still allowed:
  \<^verbatim>\<open>if l.N <= 0 { return 0, EOF }; if int64(len(p)) > l.N { p = p[0:l.N] };
  n, err = l.R.Read(p); l.N -= int64(n)\<close>. The limit comes from a chunk length, so it is
  never negative and is kept as a natural number.
\<close>

definition LimitedReader_Read ::
    "source_reader \<Rightarrow> nat \<Rightarrow> byte list \<Rightarrow> nat \<Rightarrow> read_result \<times> nat \<times> byte list" where
  "LimitedReader_Read rd N src n =
     (if N \<le> 0 then (([], Some EOF), N, src)
      else
        (let m = (if n > N then N else n);
             (r, src') = source_Read rd src m
         in (r, N - length (fst r), src')))"

text \<open>
  \<^verbatim>\<open>bytes.Reader.Read\<close> over the bytes \<open>s\<close> that are left:
  \<^verbatim>\<open>if r.i >= len(r.s) { return 0, io.EOF }; n = copy(b, r.s[r.i:]); r.i += n\<close>.
\<close>

definition BytesReader_Read :: "byte list \<Rightarrow> nat \<Rightarrow> read_result \<times> byte list" where
  "BytesReader_Read s n =
     (if s = [] then (([], Some EOF), s)
      else ((take n s, None), drop n s))"

text \<open>
  \<^verbatim>\<open>ioutil.ReadAll(io.LimitReader(c.source, N))\<close>: it calls \<^verbatim>\<open>Read\<close> with the free space of
  its buffer (\<^verbatim>\<open>bytes.MinRead\<close> = 512 bytes) until an error, and reports every error
  but \<^verbatim>\<open>io.EOF\<close>. Over a source that keeps answering with no bytes and no error the loop
  does not end: the result \<open>None\<close> is for a call that does not return.
\<close>

partial_function (option) ReadAll_LimitReader ::
    "source_reader \<Rightarrow> nat \<Rightarrow> byte list \<Rightarrow> (read_result \<times> byte list) option" where
  "ReadAll_LimitReader rd N src =
     (case LimitedReader_Read rd N src 512 of
        ((bs, Some e), N', src') \<Rightarrow> Some ((bs, if e = EOF then None else Some e), src')
      | ((bs, None), N', src') \<Rightarrow>
          Option.bind (ReadAll_LimitReader rd N' src')
            (\<lambda>((bs', err), src''). Some ((bs @ bs', err), src'')))"

text \<open>
  \<^verbatim>\<open>binary.LittleEndian.Uint32(b)\<close>:
  \<^verbatim>\<open>uint32(b[0]) | uint32(b[1])<<8 | uint32(b[2])<<16 | uint32(b[3])<<24\<close>. Both callers pass
  the four-byte \<^verbatim>\<open>header\<close> buffer, so every index is in range.
\<close>

definition LittleEndian_Uint32 :: "byte list \<Rightarrow> 32 word" where
  "LittleEndian_Uint32 b =
     ucast (b ! 0) OR push_bit 8 (ucast (b ! 1)) OR push_bit 16 (ucast (b ! 2))
       OR push_bit 24 (ucast (b ! 3))"

text \<open>
  The \<^verbatim>\<open>header\<close> buffer after \<^verbatim>\<open>c.source.Read(header[:3])\<close> stored the bytes \<open>bs\<close> (three
  at most): \<^verbatim>\<open>make([]byte, 4, 4)\<close> is four zero bytes, and the read overwrites the first
  \<open>length bs\<close> of them.
\<close>

definition header_buffer :: "byte list \<Rightarrow> byte list" where
  "header_buffer bs = bs @ drop (length bs) (replicate 4 0)"

subsection \<open>The decompression libraries\<close>

text \<open>
  \<^verbatim>\<open>compress/flate\<close> and \<^verbatim>\<open>github.com/golang/snappy\<close> are libraries outside the
  repository; the decoders are stated for any behaviour of them.

  \<^item> \<^verbatim>\<open>snappy.Decode(nil, src)\<close> is a function \<open>dec\<close> from the block to the decoded bytes
    or to one of its errors.
  \<^item> A \<^verbatim>\<open>flate\<close> reader over \<^verbatim>\<open>io.LimitReader(c.source, N)\<close> has a private state of type
    \<open>'f\<close>; \<open>fnew\<close> is the state \<^verbatim>\<open>flate.NewReader\<close> starts in (it reads nothing), and
    \<open>fread st N left n\<close> is one \<^verbatim>\<open>Read\<close> with \<open>len(p) = n\<close> when the limited reader still
    allows \<open>N\<close> bytes and the source has the bytes \<open>left\<close>: it answers with the bytes it
    stores into \<open>p\<close>, its error, its next state and how many bytes it took from the
    source. It cannot take more than the limited reader allows nor more than are left.
\<close>

type_synonym snappy_Decode = "byte list \<Rightarrow> error + byte list"

type_synonym 'f flate_Read = "'f \<Rightarrow> nat \<Rightarrow> byte list \<Rightarrow> nat \<Rightarrow> read_result \<times> 'f \<times> nat"

subsection \<open>Decoder state\<close>

text \<open>
  \<^verbatim>\<open>CompressionZlibDecoder\<close> and \<^verbatim>\<open>CompressionSnappyDecoder\<close> are two structs with the same
  five fields; \<open>'r\<close> is the kind of chunk reader the field \<^verbatim>\<open>decoded\<close> can hold, and
  \<open>None\<close> is \<^verbatim>\<open>nil\<close>. \<^verbatim>\<open>chunkLength\<close> is \<^verbatim>\<open>int(headerVal / 2)\<close> of an unsigned
  32-bit value, so it is never negative. The field \<^verbatim>\<open>source\<close> holds the state of the
  source; the reader behind it is the parameter \<open>rd\<close> of every function that reads.
\<close>

record 'r decoder =
  source :: "byte list"
  decoded :: "'r option"
  isOriginal :: bool
  chunkLength :: nat
  remaining :: int

text \<open>
  The readers \<^verbatim>\<open>readHeader\<close> stores into \<^verbatim>\<open>decoded\<close>. Each limited reader reads from
  \<^verbatim>\<open>c.source\<close> itself, so the model keeps only its count \<open>N\<close> and passes the decoder's
  source through every read.
\<close>

datatype 'f zlib_reader =
    ZlibLimitReader nat
  | ZlibFlateReader 'f nat

datatype snappy_reader =
    SnappyLimitReader nat
  | SnappyBytesReader "byte list"

type_synonym 'f CompressionZlibDecoder = "'f zlib_reader decoder"
type_synonym CompressionSnappyDecoder = "snappy_reader decoder"

subsection \<open>CompressionNone\<close>

definition CompressionNone_Encoder :: "'w \<Rightarrow> 'w" where
  "CompressionNone_Encoder w = w"

definition CompressionNone_Decoder :: "'r \<Rightarrow> 'r" where
  "CompressionNone_Decoder r = r"

subsection \<open>CompressionZlib\<close>

definition CompressionZlib_Decoder :: "byte list \<Rightarrow> 'f CompressionZlibDecoder" where
  "CompressionZlib_Decoder r =
     \<lparr>source = r, decoded = None, isOriginal = False, chunkLength = 0, remaining = 0\<rparr>"

definition Zlib_readHeader ::
    "source_reader \<Rightarrow> 'f \<Rightarrow> 'f CompressionZlibDecoder \<Rightarrow> read_result \<times> 'f CompressionZlibDecoder" where
  "Zlib_readHeader rd fnew c =
     (case source_Read rd (source c) 3 of
        ((bs, Some err), src') \<Rightarrow> (([], Some err), c\<lparr>source := src'\<rparr>)
      | ((bs, None), src') \<Rightarrow>
          (let headerVal = LittleEndian_Uint32 (header_buffer bs);
               c = c\<lparr>source := src'\<rparr>;
               c = c\<lparr>isOriginal := (headerVal mod 2 = 1)\<rparr>;
               c = c\<lparr>chunkLength := unat (headerVal div 2)\<rparr>
           in if \<not> isOriginal c
              then (([], None), c\<lparr>decoded := Some (ZlibFlateReader fnew (chunkLength c))\<rparr>)
              else (([], None), c\<lparr>decoded := Some (ZlibLimitReader (chunkLength c))\<rparr>)))"

text \<open>\<^verbatim>\<open>c.decoded.Read(p)\<close>, by the kind of reader; it returns the reader and the source after the call.\<close>

definition Zlib_decoded_Read ::
    "source_reader \<Rightarrow> 'f flate_Read \<Rightarrow> 'f zlib_reader \<Rightarrow> byte list \<Rightarrow> nat
       \<Rightarrow> read_result \<times> 'f zlib_reader \<times> byte list" where
  "Zlib_decoded_Read rd fread r src n =
     (case r of
        ZlibLimitReader N \<Rightarrow>
          (case LimitedReader_Read rd N src n of (res, N', src') \<Rightarrow> (res, ZlibLimitReader N', src'))
      | ZlibFlateReader st N \<Rightarrow>
          (case fread st N src n of
             (res, st', k) \<Rightarrow>
               (let k = min k (length (take N src))
                in (res, ZlibFlateReader st' (N - k), drop k src))))"

definition Zlib_Read ::
    "source_reader \<Rightarrow> 'f flate_Read \<Rightarrow> 'f \<Rightarrow> 'f CompressionZlibDecoder \<Rightarrow> nat
       \<Rightarrow> read_result \<times> 'f CompressionZlibDecoder" where
  "Zlib_Read rd fread fnew c n =
     (case decoded c of
        None \<Rightarrow> Zlib_readHeader rd fnew c
      | Some r \<Rightarrow>
          (case Zlib_decoded_Read rd fread r (source c) n of
             ((bs, err), r', src') \<Rightarrow>
               (if err = Some EOF
                then ((bs, None), c\<lparr>source := src', decoded := None\<rparr>)
                else ((bs, err), c\<lparr>source := src', decoded := Some r'\<rparr>))))"

subsection \<open>CompressionSnappy\<close>

definition CompressionSnappy_Decoder :: "byte list \<Rightarrow> CompressionSnappyDecoder" where
  "CompressionSnappy_Decoder r =
     \<lparr>source = r, decoded = None, isOriginal = False, chunkLength = 0, remaining = 0\<rparr>"

text \<open>
  \<^verbatim>\<open>readHeader\<close> of the Snappy decoder calls \<^verbatim>\<open>ioutil.ReadAll\<close>, so it returns only if
  that call does: the result is an option, and so is the result of \<^verbatim>\<open>Read\<close>.
\<close>

definition Snappy_readHeader ::
    "source_reader \<Rightarrow> snappy_Decode \<Rightarrow> CompressionSnappyDecoder
       \<Rightarrow> (read_result \<times> CompressionSnappyDecoder) option" where
  "Snappy_readHeader rd dec c =
     (case source_Read rd (source c) 3 of
        ((bs, Some err), src') \<Rightarrow> Some (([], Some err), c\<lparr>source := src'\<rparr>)
      | ((bs, None), src') \<Rightarrow>
          (let headerVal = LittleEndian_Uint32 (header_buffer bs);
               c = c\<lparr>source := src'\<rparr>;
               c = c\<lparr>isOriginal := (headerVal mod 2 = 1)\<rparr>;
               c = c\<lparr>chunkLength := unat (headerVal div 2)\<rparr>
           in if \<not> isOriginal c
              then (case ReadAll_LimitReader rd (chunkLength c) (source c) of
                      None \<Rightarrow> None
                    | Some ((src, Some err), src'') \<Rightarrow> Some (([], Some err), c\<lparr>source := src''\<rparr>)
                    | Some ((src, None), src'') \<Rightarrow>
                        (case dec src of
                           Inl err \<Rightarrow> Some (([], Some err), c\<lparr>source := src''\<rparr>)
                         | Inr decodedBytes \<Rightarrow>
                             Some (([], None),
                                   c\<lparr>source := src'',
                                     decoded := Some (SnappyBytesReader decodedBytes)\<rparr>)))
              else Some (([], None), c\<lparr>decoded := Some (SnappyLimitReader (chunkLength c))\<rparr>)))"

definition Snappy_decoded_Read ::
    "source_reader \<Rightarrow> snappy_reader \<Rightarrow> byte list \<Rightarrow> nat
       \<Rightarrow> read_result \<times> snappy_reader \<times> byte list" where
  "Snappy_decoded_Read rd r src n =
     (case r of
        SnappyLimitReader N \<Rightarrow>
          (case LimitedReader_Read rd N src n of (res, N', src') \<Rightarrow> (res, SnappyLimitReader N', src'))
      | SnappyBytesReader s \<Rightarrow>
          (case BytesReader_Read s n of (res, s') \<Rightarrow> (res, SnappyBytesReader s', src)))"

definition Snappy_Read ::
    "source_reader \<Rightarrow> snappy_Decode \<Rightarrow> CompressionSnappyDecoder \<Rightarrow> nat
       \<Rightarrow> (read_result \<times> CompressionSnappyDecoder) option" where
  "Snappy_Read rd dec c n =
     (case decoded c of
        None \<Rightarrow> Snappy_readHeader rd dec c
      | Some r \<Rightarrow>
          (case Snappy_decoded_Read rd r (source c) n of
             ((bs, err), r', src') \<Rightarrow>
               (if err = Some EOF \<or> err = Some ErrCorrupt
                then Some ((bs, None), c\<lparr>source := src', decoded := None\<rparr>)
                else Some ((bs, err), c\<lparr>source := src', decoded := Some r'\<rparr>))))"

subsection \<open>Callers\<close>

text \<open>
  A caller that calls \<^verbatim>\<open>Read\<close> once for each buffer length of \<open>ns\<close>, in order, appends what
  the calls store and stops at the first error, as a copying loop does. The result is all the
  bytes it got, the error that stopped it (\<open>None\<close> when the lengths ran out first) and the
  decoder it is left with; there is no result when a call does not return. \<open>returning\<close>
  makes a \<^verbatim>\<open>Read\<close> that always returns fit.
\<close>

definition returning :: "('s \<Rightarrow> nat \<Rightarrow> 'a) \<Rightarrow> 's \<Rightarrow> nat \<Rightarrow> 'a option" where
  "returning f c n = Some (f c n)"

fun reads ::
    "('s \<Rightarrow> nat \<Rightarrow> (read_result \<times> 's) option) \<Rightarrow> nat list \<Rightarrow> 's \<Rightarrow> (read_result \<times> 's) option" where
  "reads rd [] c = Some (([], None), c)"
| "reads rd (n # ns) c =
     (case rd c n of
        None \<Rightarrow> None
      | Some ((bs, err), c') \<Rightarrow>
          (if err \<noteq> None then Some ((bs, err), c')
           else (case reads rd ns c' of
                   None \<Rightarrow> None
                 | Some ((bs', err'), c'') \<Rightarrow> Some ((bs @ bs', err'), c''))))"


subsection \<open>Readers behind the source\<close>

text \<open>
  Three readers of the Go library, for the concrete runs. \<^verbatim>\<open>bytes.Reader\<close> fills the buffer
  as far as bytes remain and reports \<^verbatim>\<open>io.EOF\<close> only once none is left.
  \<^verbatim>\<open>iotest.OneByteReader\<close> over it stores one byte for a non-empty buffer
  (\<^verbatim>\<open>if len(p) == 0 { return 0, nil }; return r.Read(p[0:1])\<close>). \<^verbatim>\<open>iotest.DataErrReader\<close>
  over it (on a stream of no more than its 1024-byte buffer, read into a non-empty buffer)
  reports \<^verbatim>\<open>io.EOF\<close> together with the last bytes.
\<close>

definition bytes_Reader :: source_reader where
  "bytes_Reader left n = (if left = [] then (0, Some EOF) else (n, None))"


definition DataErrReader :: source_reader where
  "DataErrReader left n = (if length left \<le> n then (length left, Some EOF) else (n, None))"

text \<open>
  A source that delivers its stream steadily: a read for the three bytes of a header gets
  them all, with no error, while three bytes remain; a read into a non-empty buffer stores
  at least one byte without error, or all that is left together with \<^verbatim>\<open>io.EOF\<close>; and once
  nothing is left a read into a non-empty buffer reports \<^verbatim>\<open>io.EOF\<close>. Apart from the first
  condition it may read as short as it likes.
\<close>

definition steady_source :: "source_reader \<Rightarrow> bool" where
  "steady_source rd =
     ((\<forall>left. 3 \<le> length left \<longrightarrow> snd (rd left 3) = None \<and> 3 \<le> fst (rd left 3))
      \<and> (\<forall>left n. 0 < n \<and> left \<noteq> [] \<longrightarrow>
            (snd (rd left n) = None \<and> 0 < fst (rd left n)
             \<or> snd (rd left n) = Some EOF \<and> length left \<le> min (fst (rd left n)) n))
      \<and> (\<forall>n. 0 < n \<longrightarrow> snd (rd [] n) = Some EOF))"

subsection \<open>The chunk format, as the specification words it\<close>






subsection \<open>Instances of the libraries for concrete runs\<close>

text \<open>
  The concrete runs below need a decompressor to run with. \<open>snappy_Decode_literal\<close> is
  \<^verbatim>\<open>snappy.Decode\<close> on the blocks these runs hold: the empty input and a preamble that
  announces more bytes than the elements give are corrupt, the block \<open>[0]\<close> is the empty
  content, and a block \<open>[l, 4 * (l - 1), x\<^sub>1, \<dots>, x\<^sub>l]\<close> with \<open>1 \<le> l \<le> 60\<close> is the literal
  \<open>x\<^sub>1 \<dots> x\<^sub>l\<close>. It is not the decoder on other blocks (it knows no copy element).
\<close>

definition snappy_Decode_literal :: snappy_Decode where
  "snappy_Decode_literal src =
     (case src of
        [] \<Rightarrow> Inl ErrCorrupt
      | l # elems \<Rightarrow>
          (if l = 0 \<and> elems = [] then Inr []
           else (case elems of
                   [] \<Rightarrow> Inl ErrCorrupt
                 | tag # lit \<Rightarrow>
                     (if 1 \<le> unat l \<and> unat l \<le> 60 \<and> unat tag = 4 * (unat l - 1)
                         \<and> length lit = unat l
                      then Inr lit else Inl ErrCorrupt))))"

text \<open>
  \<open>flate_Read_stored\<close> is the \<^verbatim>\<open>flate\<close> reader over a \<^verbatim>\<open>bytes.Reader\<close> source on a body
  that is one final stored block \<open>[1, LEN, NLEN, data]\<close> of a few bytes: the first read
  takes the whole body from the limited reader and keeps the data that the buffer does not
  hold; a read reports \<^verbatim>\<open>io.EOF\<close> together with the last bytes. The state is the data not
  yet delivered (\<open>None\<close> before the first read).
\<close>

definition flate_Read_stored :: "(byte list option) flate_Read" where
  "flate_Read_stored st N left n =
     (case st of
        None \<Rightarrow>
          (case take N left of
             h # l0 # l1 # n0 # n1 # data \<Rightarrow>
               (if h = 1 \<and> n0 = NOT l0 \<and> n1 = NOT l1 \<and> length data = unat l0 + 256 * unat l1
                then ((take n data, if drop n data = [] then Some EOF else None),
                      Some (drop n data), length (take N left))
                else (([], Some (CorruptInputError 0)), None, length (take N left)))
           | _ \<Rightarrow> (([], Some ErrUnexpectedEOF), None, length (take N left)))
      | Some pending \<Rightarrow>
          ((take n pending, if drop n pending = [] then Some EOF else None),
           Some (drop n pending), 0))"

section \<open>Properties\<close>

subsection \<open>The header word\<close>

lemma unat_ucast_byte: "unat (ucast (b :: byte) :: 32 word) = unat b"
proof -
  have "unat b < 2 ^ 32"
    using unsigned_less[of b, where 'a=nat] by simp
  then show ?thesis
    by (simp add: unsigned_ucast_eq take_bit_nat_eq_self)
qed



lemma bit0_unat: "bit (w :: 32 word) 0 = odd (unat w)"
  by (metis bit_0 even_of_nat mod_by_0 unat_mod word_arith_nat_mod)

lemma word32_mod2: "((w :: 32 word) mod 2 = 1) = bit w 0"
  by (simp add: bit_0 odd_iff_mod_2_eq_one)

lemma word32_div2: "unat ((w :: 32 word) div 2) = unat w div 2"
  by (simp add: unat_div)

lemma Uint32_3_as_sum:
  fixes b0 b1 b2 :: byte
  shows "LittleEndian_Uint32 [b0, b1, b2, 0]
         = ucast b0 + (push_bit 8 (ucast b1) + push_bit 16 (ucast b2))"
proof -
  have hi: "(push_bit 8 (ucast b1) :: 32 word) + push_bit 16 (ucast b2)
            = push_bit 8 (ucast b1) OR push_bit 16 (ucast b2)"
    by (rule disjunctive_add_eq_or, rule bit_eqI)
       (auto simp add: bit_simps dest: bit_imp_le_length)
  have lo: "(ucast b0 :: 32 word) + (push_bit 8 (ucast b1) OR push_bit 16 (ucast b2))
            = ucast b0 OR (push_bit 8 (ucast b1) OR push_bit 16 (ucast b2))"
    by (rule disjunctive_add_eq_or, rule bit_eqI)
       (auto simp add: bit_simps dest: bit_imp_le_length)
  show ?thesis
    by (simp add: LittleEndian_Uint32_def hi lo or.assoc)
qed

lemma unat_Uint32_3:
  fixes b0 b1 b2 :: byte
  shows "unat (LittleEndian_Uint32 [b0, b1, b2, 0]) = unat b0 + 256 * unat b1 + 65536 * unat b2"
proof -
  have "unat b0 < 256" "unat b1 < 256" "unat b2 < 256"
    using unsigned_less[of b0, where 'a=nat] unsigned_less[of b1, where 'a=nat]
      unsigned_less[of b2, where 'a=nat]
    by simp_all
  then show ?thesis
    by (simp add: Uint32_3_as_sum push_bit_eq_mult unat_word_ariths unat_ucast_byte)
qed



lemma header_buffer_simps:
  "header_buffer [b0, b1, b2] = [b0, b1, b2, 0]"
  "header_buffer [b0, b1] = [b0, b1, 0, 0]"
  "header_buffer [b0] = [b0, 0, 0, 0]"
  "header_buffer [] = [0, 0, 0, 0]"
  by (simp_all add: header_buffer_def numeral_eq_Suc)

lemma take3_simps:
  "take 3 (b0 # b1 # b2 # rest) = [b0, b1, b2]" "drop 3 (b0 # b1 # b2 # rest) = rest"
  "take 3 [b0, b1] = [b0, b1]" "drop 3 [b0, b1] = []"
  "take 3 [b0] = [b0]" "drop 3 [b0] = []"
  by (simp_all add: numeral_eq_Suc)









subsection \<open>One call of each reader\<close>


lemma source_Read_append:
  assumes "source_Read rd src n = ((bs, err), s')"
  shows "src = bs @ s'"
  using assms by (auto simp: source_Read_def split: prod.splits)

lemma source_Read_bytes_Reader:
  "source_Read bytes_Reader src n
   = (if src = [] then (([], Some EOF), src) else ((take n src, None), drop n src))"
  by (simp add: source_Read_def bytes_Reader_def)

lemma steady_bytes_Reader: "steady_source bytes_Reader"
  by (auto simp: steady_source_def bytes_Reader_def)

lemma steady_sourceD:
  assumes "steady_source rd"
  shows "3 \<le> length left \<Longrightarrow> snd (rd left 3) = None \<and> 3 \<le> fst (rd left 3)"
    and "0 < n \<Longrightarrow> left \<noteq> [] \<Longrightarrow>
           snd (rd left n) = None \<and> 0 < fst (rd left n)
           \<or> snd (rd left n) = Some EOF \<and> length left \<le> min (fst (rd left n)) n"
    and "0 < n \<Longrightarrow> snd (rd [] n) = Some EOF"
  using assms unfolding steady_source_def by blast+


lemma steady_end:
  assumes "steady_source rd" and "0 < n"
  shows "source_Read rd [] n = (([], Some EOF), [])"
  using steady_sourceD(3)[OF assms] by (cases "rd [] n") (simp add: source_Read_def)

lemma steady_step:
  assumes "steady_source rd" and "0 < n" and "src \<noteq> []"
  obtains (more) m where "0 < m" "m \<le> n" "m \<le> length src"
      "source_Read rd src n = ((take m src, None), drop m src)"
    | (last) "length src \<le> n" "source_Read rd src n = ((src, Some EOF), [])"
proof -
  obtain k err where rd: "rd src n = (k, err)"
    by (cases "rd src n") auto
  have "err = None \<and> 0 < k \<or> err = Some EOF \<and> length src \<le> min k n"
    using steady_sourceD(2)[OF assms] by (simp add: rd)
  then show thesis
  proof
    assume a: "err = None \<and> 0 < k"
    define m where "m = min (min k n) (length src)"
    have "0 < m" "m \<le> n" "m \<le> length src"
      using a assms(2,3) by (auto simp: m_def)
    moreover have "source_Read rd src n = ((take m src, None), drop m src)"
      using a by (auto simp: source_Read_def rd m_def min_def)
    ultimately show thesis
      by (rule more)
  next
    assume a: "err = Some EOF \<and> length src \<le> min k n"
    then have "length src \<le> n" "source_Read rd src n = ((src, Some EOF), [])"
      by (auto simp: source_Read_def rd)
    then show thesis
      by (rule last)
  qed
qed

lemma ReadAll_LimitReader_steady:
  assumes "steady_source rd"
  shows "ReadAll_LimitReader rd N src = Some ((take N src, None), drop N src)"
proof (induction "length src" arbitrary: N src rule: less_induct)
  case less
  show ?case
  proof (cases "N = 0")
    case True
    then show ?thesis
      by (subst ReadAll_LimitReader.simps) (simp add: LimitedReader_Read_def)
  next
    case N: False
    define m where "m = (if 512 > N then N else 512)"
    have m: "0 < m" "m \<le> N"
      using N by (auto simp: m_def)
    show ?thesis
    proof (cases "src = []")
      case True
      then show ?thesis
        using N steady_end[OF assms m(1)]
        by (subst ReadAll_LimitReader.simps) (simp add: LimitedReader_Read_def Let_def m_def)
    next
      case False
      from assms m(1) False show ?thesis
      proof (cases rule: steady_step)
        case (more j)
        have step: "LimitedReader_Read rd N src 512 = ((take j src, None), N - j, drop j src)"
          using N more by (simp add: LimitedReader_Read_def Let_def m_def min_def)
        have "length (drop j src) < length src"
          using more False by simp
        from less[OF this]
        have IH: "ReadAll_LimitReader rd (N - j) (drop j src)
                  = Some ((take (N - j) (drop j src), None), drop (N - j) (drop j src))" .
        have "j \<le> N"
          using more m by simp
        have "take (j + (N - j)) src = take j src @ take (N - j) (drop j src)"
          by (rule take_add)
        then have cat: "take j src @ take (N - j) (drop j src) = take N src"
          using \<open>j \<le> N\<close> by simp
        have rest: "drop (N - j) (drop j src) = drop N src"
          using \<open>j \<le> N\<close> by simp
        show ?thesis
          using cat rest by (subst ReadAll_LimitReader.simps) (simp add: step IH)
      next
        case last
        have step: "LimitedReader_Read rd N src 512 = ((src, Some EOF), N - length src, [])"
          using N last by (simp add: LimitedReader_Read_def Let_def m_def)
        have "length src \<le> N"
          using last m by simp
        then show ?thesis
          by (subst ReadAll_LimitReader.simps) (simp add: step)
      qed
    qed
  qed
qed

lemma Zlib_readHeader_eq:
  assumes "source_Read rd (source c) 3 = ((bs, err), s')"
  shows "Zlib_readHeader rd fnew c =
    (case err of
       Some e \<Rightarrow> (([], Some e), c\<lparr>source := s'\<rparr>)
     | None \<Rightarrow>
         (let v = LittleEndian_Uint32 (header_buffer bs)
          in (([], None),
              c\<lparr>source := s', isOriginal := bit v 0, chunkLength := unat v div 2,
                decoded := Some (if bit v 0 then ZlibLimitReader (unat v div 2)
                                 else ZlibFlateReader fnew (unat v div 2))\<rparr>)))"
  using assms
  by (simp add: Zlib_readHeader_def Let_def word32_mod2 word32_div2 split: option.split)

lemma Snappy_readHeader_eq:
  assumes "source_Read rd (source c) 3 = ((bs, err), s')"
  shows "Snappy_readHeader rd dec c =
    (case err of
       Some e \<Rightarrow> Some (([], Some e), c\<lparr>source := s'\<rparr>)
     | None \<Rightarrow>
         (let v = LittleEndian_Uint32 (header_buffer bs);
              L = unat v div 2;
              c1 = c\<lparr>source := s', isOriginal := bit v 0, chunkLength := L\<rparr>
          in if bit v 0 then Some (([], None), c1\<lparr>decoded := Some (SnappyLimitReader L)\<rparr>)
             else (case ReadAll_LimitReader rd L s' of
                     None \<Rightarrow> None
                   | Some ((buf, Some e), s'') \<Rightarrow> Some (([], Some e), c1\<lparr>source := s''\<rparr>)
                   | Some ((buf, None), s'') \<Rightarrow>
                       (case dec buf of
                          Inl e \<Rightarrow> Some (([], Some e), c1\<lparr>source := s''\<rparr>)
                        | Inr d \<Rightarrow>
                            Some (([], None),
                                  c1\<lparr>source := s'',
                                     decoded := Some (SnappyBytesReader d)\<rparr>)))))"
  using assms
  by (simp add: Snappy_readHeader_def Let_def word32_mod2 word32_div2
      split: option.split sum.split prod.split)




subsection \<open>Claims about the header\<close>







text \<open>
  C10. The decoder of the None codec is the identity: \<^verbatim>\<open>CompressionNone.Decoder(r)\<close> is the
  reader \<open>r\<close> itself, so a read of it is a read of the underlying stream, with no chunk
  header parsed and no framing.
\<close>

theorem CompressionNone_Decoder_identity:
  "CompressionNone_Decoder r = r
   \<and> source_Read rd (CompressionNone_Decoder src) n = source_Read rd src n
   \<and> source_Read bytes_Reader (CompressionNone_Decoder src) n
       = (if src = [] then (([], Some EOF), src) else ((take n src, None), drop n src))
   \<and> reads (returning (source_Read rd)) ns (CompressionNone_Decoder src)
       = reads (returning (source_Read rd)) ns src"
  by (simp add: CompressionNone_Decoder_def source_Read_bytes_Reader)

subsection \<open>Claims about one call of Read\<close>

text \<open>
  C4. In the Zlib decoder, when the \<^verbatim>\<open>Read\<close> of the active chunk reader reports \<^verbatim>\<open>io.EOF\<close>,
  \<^verbatim>\<open>Read\<close> returns the bytes of that call with no error and discards the chunk reader, so
  that the next \<^verbatim>\<open>Read\<close> parses the next chunk header.
\<close>

theorem Zlib_Read_end_of_chunk:
  assumes "decoded c = Some r"
    and "Zlib_decoded_Read rd fread r (source c) n = ((bs, Some EOF), r', src')"
  shows "Zlib_Read rd fread fnew c n = ((bs, None), c\<lparr>source := src', decoded := None\<rparr>)
       \<and> Zlib_Read rd fread fnew (snd (Zlib_Read rd fread fnew c n)) m
           = Zlib_readHeader rd fnew (snd (Zlib_Read rd fread fnew c n))"
  using assms by (simp add: Zlib_Read_def)

theorem Zlib_Read_end_of_chunk_witness:
  "Zlib_Read bytes_Reader flate_Read_stored None
     \<lparr>source = [0x01, 0x02, 0x00, 0xFD, 0xFF, 0x68, 0x69, 0x05, 0x00, 0x00, 0x41, 0x42],
      decoded = Some (ZlibFlateReader None 7), isOriginal = False, chunkLength = 7,
      remaining = 0\<rparr> 10
   = (([0x68, 0x69], None),
      \<lparr>source = [0x05, 0x00, 0x00, 0x41, 0x42], decoded = None, isOriginal = False,
       chunkLength = 7, remaining = 0\<rparr>)"
proof -
  let ?c = "\<lparr>source = [0x01, 0x02, 0x00, 0xFD, 0xFF, 0x68, 0x69, 0x05, 0x00, 0x00, 0x41, 0x42],
        decoded = Some (ZlibFlateReader None 7), isOriginal = False, chunkLength = 7,
        remaining = 0\<rparr> :: byte list option CompressionZlibDecoder"
  have h1: "decoded ?c = Some (ZlibFlateReader None 7)"
    by simp
  have h2: "Zlib_decoded_Read bytes_Reader flate_Read_stored (ZlibFlateReader None 7) (source ?c) 10
            = (([0x68, 0x69], Some EOF), ZlibFlateReader (Some []) 0,
               [0x05, 0x00, 0x00, 0x41, 0x42])"
    by (simp add: Zlib_decoded_Read_def flate_Read_stored_def)
  show ?thesis
    using Zlib_Read_end_of_chunk[OF h1 h2, of None 1] by simp
qed

text \<open>
  C5, as the code has it. In the Snappy decoder, when \<^verbatim>\<open>snappy.Decode\<close> rejects the body of a
  compressed chunk, the \<^verbatim>\<open>Read\<close> call that parses the header of the chunk returns no bytes
  and the error of \<^verbatim>\<open>snappy.Decode\<close> itself: the corruption reaches the caller. The body
  has been taken from the source and no chunk reader is installed. (The chunk is the one
  \<^verbatim>\<open>readHeader\<close> parsed: its header is what the \<^verbatim>\<open>Read\<close> of the source delivered, its body
  what \<^verbatim>\<open>ioutil.ReadAll\<close> returned.)
\<close>

theorem Snappy_Read_corrupt_block:
  assumes "decoded c = None"
    and "source_Read rd (source c) 3 = (([b0, b1, b2], None), rest)"
    and "even (unat b0)"
    and "L = (unat b0 + 256 * unat b1 + 65536 * unat b2) div 2"
    and "ReadAll_LimitReader rd L rest = Some ((body, None), s')"
    and "dec body = Inl e"
  shows "Snappy_Read rd dec c n
         = Some (([], Some e), c\<lparr>source := s', isOriginal := False, chunkLength := L\<rparr>)"
  using assms(1,3-)
  by (simp add: Snappy_Read_def Snappy_readHeader_eq[OF assms(2)] Let_def header_buffer_simps
      bit0_unat unat_Uint32_3)

theorem Snappy_Read_corrupt_block_witness:
  "Snappy_Read bytes_Reader snappy_Decode_literal
     (CompressionSnappy_Decoder [0x02, 0x00, 0x00, 0x05, 0x07]) 1
   = Some (([], Some ErrCorrupt),
      \<lparr>source = [0x07], decoded = None, isOriginal = False, chunkLength = 1, remaining = 0\<rparr>)"
proof -
  let ?c = "CompressionSnappy_Decoder [0x02, 0x00, 0x00, 0x05, 0x07]"
  have h1: "decoded ?c = None"
    by (simp add: CompressionSnappy_Decoder_def)
  have h2: "source_Read bytes_Reader (source ?c) 3 = (([0x02, 0x00, 0x00], None), [0x05, 0x07])"
    by (simp add: source_Read_bytes_Reader CompressionSnappy_Decoder_def take3_simps)
  have h3: "even (unat (0x02 :: byte))"
    by simp
  have h4: "(1 :: nat)
            = (unat (0x02 :: byte) + 256 * unat (0x00 :: byte) + 65536 * unat (0x00 :: byte)) div 2"
    by simp
  have h5: "ReadAll_LimitReader bytes_Reader 1 [0x05, 0x07] = Some (([0x05], None), [0x07])"
    by (simp add: ReadAll_LimitReader_steady[OF steady_bytes_Reader])
  have h6: "snappy_Decode_literal [0x05] = Inl ErrCorrupt"
    by (simp add: snappy_Decode_literal_def)
  show ?thesis
    using Snappy_Read_corrupt_block[where dec = snappy_Decode_literal, OF h1 h2 h3 h4 h5 h6, of 1]
    by (simp add: CompressionSnappy_Decoder_def)
qed

theorem Snappy_Read_corrupt_block_counterexample:
  "Snappy_Read bytes_Reader snappy_Decode_literal
     (CompressionSnappy_Decoder [0x02, 0x00, 0x00, 0x05]) 1
   = Some (([], Some ErrCorrupt),
      \<lparr>source = [], decoded = None, isOriginal = False, chunkLength = 1, remaining = 0\<rparr>)"
proof -
  have "source_Read bytes_Reader (source (CompressionSnappy_Decoder [0x02, 0x00, 0x00, 0x05])) 3
        = (([0x02, 0x00, 0x00], None), [0x05])"
    by (simp add: source_Read_bytes_Reader CompressionSnappy_Decoder_def take3_simps)
  then show ?thesis
    by (simp add: Snappy_Read_def Snappy_readHeader_eq CompressionSnappy_Decoder_def Let_def
        header_buffer_simps bit0_unat unat_Uint32_3
        ReadAll_LimitReader_steady[OF steady_bytes_Reader] snappy_Decode_literal_def)
qed

text \<open>
  C6, as the code has it. When the \<^verbatim>\<open>Read\<close> of the source at a chunk boundary delivers only
  one or two of the three header bytes, \<^verbatim>\<open>readHeader\<close> raises no error for the truncated
  header: \<^verbatim>\<open>readHeader\<close> of the Zlib decoder returns no bytes and exactly the error that
  this \<^verbatim>\<open>Read\<close> reports (none when it reports none), and \<^verbatim>\<open>readHeader\<close> of the Snappy decoder
  returns that error whenever the \<^verbatim>\<open>Read\<close> reports one.
\<close>

theorem readHeader_short_header:
  assumes "source_Read rd (source cz) 3 = ((bs, err), sz)"
    and "source_Read rd (source cs) 3 = ((bs, err), ss)"
    and "0 < length bs" and "length bs < 3"
  shows "fst (Zlib_readHeader rd fnew cz) = ([], err)
       \<and> (\<forall>e. err = Some e \<longrightarrow>
             Snappy_readHeader rd dec cs = Some (([], Some e), cs\<lparr>source := ss\<rparr>))"
  by (simp add: Zlib_readHeader_eq[OF assms(1)] Snappy_readHeader_eq[OF assms(2)] Let_def
      split: option.split)

theorem readHeader_short_header_witness:
  "fst (Zlib_readHeader DataErrReader () (CompressionZlib_Decoder [0x05, 0x01])) = ([], Some EOF)
   \<and> Snappy_readHeader DataErrReader snappy_Decode_literal (CompressionSnappy_Decoder [0x05, 0x01])
     = Some (([], Some EOF),
        \<lparr>source = [], decoded = None, isOriginal = False, chunkLength = 0, remaining = 0\<rparr>)"
proof -
  have h1: "source_Read DataErrReader
              (source (CompressionZlib_Decoder [0x05, 0x01] :: unit CompressionZlibDecoder)) 3
            = (([0x05, 0x01], Some EOF), [])"
    by (simp add: source_Read_def DataErrReader_def CompressionZlib_Decoder_def)
  have h2: "source_Read DataErrReader (source (CompressionSnappy_Decoder [0x05, 0x01])) 3
            = (([0x05, 0x01], Some EOF), [])"
    by (simp add: source_Read_def DataErrReader_def CompressionSnappy_Decoder_def)
  have h3: "0 < length [0x05, 0x01 :: byte]" and h4: "length [0x05, 0x01 :: byte] < 3"
    by simp_all
  show ?thesis
    using readHeader_short_header[OF h1 h2 h3 h4, of "()" snappy_Decode_literal]
    by (simp add: CompressionSnappy_Decoder_def)
qed

theorem readHeader_short_header_counterexample:
  "fst (Zlib_readHeader bytes_Reader () (CompressionZlib_Decoder [0x05])) = ([], None)
   \<and> fst (Zlib_readHeader bytes_Reader () (CompressionZlib_Decoder [0x05, 0x00])) = ([], None)
   \<and> Snappy_readHeader bytes_Reader snappy_Decode_literal (CompressionSnappy_Decoder [0x05])
     = Some (([], None),
        \<lparr>source = [], decoded = Some (SnappyLimitReader 2), isOriginal = True,
         chunkLength = 2, remaining = 0\<rparr>)
   \<and> fst (Zlib_readHeader DataErrReader () (CompressionZlib_Decoder [0x05])) = ([], Some EOF)"
proof -
  have 1: "source_Read bytes_Reader
             (source (CompressionZlib_Decoder [0x05] :: unit CompressionZlibDecoder)) 3
           = (([0x05], None), [])"
    and 2: "source_Read bytes_Reader
             (source (CompressionZlib_Decoder [0x05, 0x00] :: unit CompressionZlibDecoder)) 3
           = (([0x05, 0x00], None), [])"
    and 3: "source_Read bytes_Reader (source (CompressionSnappy_Decoder [0x05])) 3
           = (([0x05], None), [])"
    and 4: "source_Read DataErrReader
             (source (CompressionZlib_Decoder [0x05] :: unit CompressionZlibDecoder)) 3
           = (([0x05], Some EOF), [])"
    by (simp_all add: source_Read_def bytes_Reader_def DataErrReader_def
        CompressionZlib_Decoder_def CompressionSnappy_Decoder_def)
  have s: "Snappy_readHeader bytes_Reader snappy_Decode_literal (CompressionSnappy_Decoder [0x05])
     = Some (([], None),
        (CompressionSnappy_Decoder [0x05])
          \<lparr>source := [], isOriginal := True, chunkLength := 2,
            decoded := Some (SnappyLimitReader 2)\<rparr>)"
    by (simp add: Snappy_readHeader_eq[OF 3] Let_def header_buffer_simps bit0_unat unat_Uint32_3)
  show ?thesis
    by (simp add: Zlib_readHeader_eq[OF 1] Zlib_readHeader_eq[OF 2] Zlib_readHeader_eq[OF 4] s
        Let_def header_buffer_simps bit0_unat unat_Uint32_3)
       (simp add: CompressionSnappy_Decoder_def)
qed




subsection \<open>Claims about the end of the stream\<close>







subsection \<open>Sequences of calls\<close>






subsection \<open>Reading one chunk\<close>








subsection \<open>Claims about whole chunks\<close>












end
